theory Spec2Isabelle
  imports Main
begin

section \<open>Question-answer datasets (torchtext.experimental.datasets.question_answer)\<close>

text \<open>
  A shallow embedding of \<^verbatim>\<open>question_answer.py\<close>: the class
  \<^verbatim>\<open>QuestionAnswerDataset\<close> and the factory \<^verbatim>\<open>_setup_datasets\<close> with its two
  entry points \<^verbatim>\<open>SQuAD1\<close> and \<^verbatim>\<open>SQuAD2\<close>. Python exceptions are values of
  \<open>py_error\<close>; a function that may raise returns \<open>py_error + 'a\<close>. A Python \<^verbatim>\<open>str\<close>
  is a \<open>string\<close>, one \<open>char\<close> for each code point; a Python \<^verbatim>\<open>int\<close> is an \<open>int\<close>.
\<close>

subsection \<open>Python values\<close>

datatype py_error = IndexError | KeyError | TypeError | ValueError | RuntimeError

text \<open>\<^verbatim>\<open>xs[i]\<close> on a list: a negative index counts from the end, anything else out of
  range raises \<^verbatim>\<open>IndexError\<close>.\<close>

definition py_index :: "'a list \<Rightarrow> int \<Rightarrow> py_error + 'a" where
  "py_index xs i =
     (if 0 \<le> i \<and> i < int (length xs) then Inr (xs ! nat i)
      else if - int (length xs) \<le> i \<and> i < 0 then Inr (xs ! nat (int (length xs) + i))
      else Inl IndexError)"

text \<open>\<^verbatim>\<open>xs[:k]\<close>: a negative stop counts from the end and is clipped at 0; a stop past the
  end gives the whole sequence. Slicing never raises.\<close>

definition py_prefix :: "'a list \<Rightarrow> int \<Rightarrow> 'a list" where
  "py_prefix xs k = (if k < 0 then take (nat (int (length xs) + k)) xs else take (nat k) xs)"

subsection \<open>Tensors\<close>

text \<open>Modelled from the spec: the tensor conversion \<^verbatim>\<open>totensor\<close> of
  \<^verbatim>\<open>torchtext.experimental.functional\<close> and the tensors it returns are not part of the
  source file. A tensor is its element type tag and its sequence of integers; the only
  tag in use is \<^verbatim>\<open>torch.long\<close>, the 64-bit signed integer element type. \<^verbatim>\<open>len\<close> of a
  tensor is its number of elements.\<close>

datatype dtype = Long

datatype tensor = Tensor dtype "int list"

fun elems :: "tensor \<Rightarrow> int list" where
  "elems (Tensor d xs) = xs"

fun len :: "tensor \<Rightarrow> nat" where
  "len (Tensor d xs) = length xs"

definition totensor :: "dtype \<Rightarrow> int list \<Rightarrow> tensor" where
  "totensor d ids_list = Tensor d ids_list"

subsection \<open>The dataset\<close>

text \<open>A raw example is the tuple \<^verbatim>\<open>(context, question, answers, answer_start)\<close>.\<close>

type_synonym raw_example = "string \<times> string \<times> string list \<times> int list"

text \<open>Modelled from the spec: the vocabulary class is not part of the source file. A
  vocabulary is its lookup, token to index, total through the unknown-token fallback.\<close>

type_synonym vocab = "string \<Rightarrow> int"

text \<open>The dictionary \<^verbatim>\<open>transforms\<close>, with its four keys; the key \<^verbatim>\<open>context\<close> is
  the field \<open>context_tr\<close>.\<close>

record transforms =
  context_tr :: "string \<Rightarrow> tensor"
  question :: "string \<Rightarrow> tensor"
  answers :: "string \<Rightarrow> tensor"
  ans_pos :: "int list \<Rightarrow> tensor"

record QuestionAnswerDataset =
  data :: "raw_example list"
  vocab :: vocab
  transforms :: transforms

text \<open>\<^verbatim>\<open>__init__\<close> stores its three arguments.\<close>

definition init :: "raw_example list \<Rightarrow> vocab \<Rightarrow> transforms \<Rightarrow> QuestionAnswerDataset" where
  "init d v t = \<lparr>data = d, vocab = v, transforms = t\<rparr>"

text \<open>Lines 52 to 54 of \<^verbatim>\<open>__getitem__\<close>: the token span of one answer whose character
  offset is not \<open>-1\<close>.\<close>

definition span :: "transforms \<Rightarrow> string \<Rightarrow> string \<Rightarrow> int \<Rightarrow> int list" where
  "span t raw_context raw_answer ans_start_idx =
     (let ans_start_token_idx = int (len (context_tr t (py_prefix raw_context ans_start_idx)));
          ans_end_token_idx = ans_start_token_idx + int (len (answers t raw_answer)) - 1
      in [ans_start_token_idx, ans_end_token_idx])"

text \<open>The body of the loop \<^verbatim>\<open>for idx in range(len(raw_answer_start))\<close>, run over the
  indices still to visit, with the two result lists as accumulators.
  \<^verbatim>\<open>raw_answers[idx]\<close> raises when the answers are fewer than the offsets.\<close>

fun getitem_loop ::
  "transforms \<Rightarrow> string \<Rightarrow> string list \<Rightarrow> int list \<Rightarrow> nat list \<Rightarrow>
   tensor list \<times> tensor list \<Rightarrow> py_error + tensor list \<times> tensor list" where
  "getitem_loop t raw_context raw_answers raw_answer_start [] acc = Inr acc"
| "getitem_loop t raw_context raw_answers raw_answer_start (idx # rest) (as, ps) =
     (case py_index raw_answers (int idx) of
        Inl e \<Rightarrow> Inl e
      | Inr raw_answer \<Rightarrow>
          (let as' = as @ [answers t raw_answer];
               ans_start_idx = raw_answer_start ! idx
           in if ans_start_idx = - 1
              then getitem_loop t raw_context raw_answers raw_answer_start rest
                     (as', ps @ [ans_pos t [- 1, - 1]])
              else getitem_loop t raw_context raw_answers raw_answer_start rest
                     (as', ps @ [ans_pos t (span t raw_context raw_answer ans_start_idx)])))"

definition getitem ::
  "QuestionAnswerDataset \<Rightarrow> int \<Rightarrow> py_error + tensor \<times> tensor \<times> tensor list \<times> tensor list" where
  "getitem ds i =
     (case py_index (data ds) i of
        Inl e \<Rightarrow> Inl e
      | Inr (raw_context, raw_question, raw_answers, raw_answer_start) \<Rightarrow>
          (let c = context_tr (transforms ds) raw_context;
               q = question (transforms ds) raw_question
           in case getitem_loop (transforms ds) raw_context raw_answers raw_answer_start
                     [0..<length raw_answer_start] ([], []) of
                Inl e \<Rightarrow> Inl e
              | Inr (as, ps) \<Rightarrow> Inr (c, q, as, ps)))"

definition ds_len :: "QuestionAnswerDataset \<Rightarrow> int" where
  "ds_len ds = int (length (data ds))"

definition get_vocab :: "QuestionAnswerDataset \<Rightarrow> vocab" where
  "get_vocab ds = vocab ds"

subsection \<open>The factory\<close>

text \<open>The argument \<^verbatim>\<open>split\<close> is a single split name or a tuple of split names; the
  factory returns a single dataset or a tuple of datasets.\<close>

datatype split_arg = SplitStr string | SplitTuple "string list"

datatype datasets = One QuestionAnswerDataset | Tuple "QuestionAnswerDataset list"

text \<open>The collaborators the factory calls and the source file does not define. The
  dictionary \<^verbatim>\<open>raw.DATASETS\<close> maps a dataset name to its raw corpus loader, and the
  subscript \<^verbatim>\<open>raw.DATASETS[dataset_name]\<close> raises \<^verbatim>\<open>KeyError\<close> on a name it does not
  have. A loader, called as \<^verbatim>\<open>(root=root, split=split)\<close>, gives the raw examples of
  each requested split or raises; its result stands for lines 71 and 72 together, the
  call and the \<^verbatim>\<open>list(raw_dataset)\<close> of each raw dataset. The others are
  \<^verbatim>\<open>get_tokenizer\<close> and \<^verbatim>\<open>build_vocab_from_iterator(iterator, num_lines)\<close>.\<close>

record collaborators =
  raw_DATASETS :: "string \<rightharpoonup> (string \<Rightarrow> string list \<Rightarrow> py_error + raw_example list list)"
  get_tokenizer :: "string \<Rightarrow> string \<Rightarrow> string list"
  build_vocab_from_iterator :: "string list list \<Rightarrow> nat \<Rightarrow> vocab"

text \<open>Modelled from the spec: \<^verbatim>\<open>_check_default_set\<close> of
  \<^verbatim>\<open>torchtext.data.datasets_utils\<close> is not part of the source file. It validates the
  requested splits against the allowed set and fails with a usage error (a
  \<^verbatim>\<open>TypeError\<close>, as the factory's own usage error is) on any unrecognized split name;
  it returns the requested names as a tuple.\<close>

definition check_default_set :: "split_arg \<Rightarrow> string list \<Rightarrow> string \<Rightarrow> py_error + string list" where
  "check_default_set split target_select dataset_name =
     (let names = (case split of SplitStr n \<Rightarrow> [n] | SplitTuple ns \<Rightarrow> ns)
      in if set names \<subseteq> set target_select then Inr names else Inl TypeError)"

text \<open>Modelled from the spec: \<^verbatim>\<open>_wrap_datasets\<close> of \<^verbatim>\<open>torchtext.data.datasets_utils\<close>
  is not part of the source file. If a single split name (not a collection) was
  requested it returns that single dataset directly rather than a collection of one;
  otherwise it returns the datasets as they are. A single name with a number of datasets
  other than one is an internal error.\<close>

definition wrap_datasets :: "QuestionAnswerDataset list \<Rightarrow> split_arg \<Rightarrow> py_error + datasets" where
  "wrap_datasets dss split =
     (case split of
        SplitStr n \<Rightarrow> (case dss of [d] \<Rightarrow> Inr (One d) | _ \<Rightarrow> Inl ValueError)
      | SplitTuple ns \<Rightarrow> Inr (Tuple dss))"

text \<open>Modelled from the spec: \<^verbatim>\<open>vocab_func\<close> and \<^verbatim>\<open>sequential_transforms\<close> of
  \<^verbatim>\<open>torchtext.experimental.functional\<close> are not part of the source file.
  \<^verbatim>\<open>vocab_func(vocab)\<close> is the vocabulary-index lookup of each token;
  \<^verbatim>\<open>sequential_transforms\<close> composes its arguments into a single callable, the first
  applied first. The factory calls it with one and with three arguments.\<close>

definition vocab_func :: "vocab \<Rightarrow> string list \<Rightarrow> int list" where
  "vocab_func v tok_iter = map v tok_iter"

definition sequential_transforms1 :: "('a \<Rightarrow> 'b) \<Rightarrow> 'a \<Rightarrow> 'b" where
  "sequential_transforms1 f txt_input = f txt_input"

definition sequential_transforms3 :: "('a \<Rightarrow> 'b) \<Rightarrow> ('b \<Rightarrow> 'c) \<Rightarrow> ('c \<Rightarrow> 'd) \<Rightarrow> 'a \<Rightarrow> 'd" where
  "sequential_transforms3 f g h txt_input = h (g (f txt_input))"

text \<open>The dictionary comprehension of line 72 over \<^verbatim>\<open>zip(split, raw_datasets)\<close>: a later
  pair replaces an earlier one with the same name.\<close>

definition raw_data_dict :: "string list \<Rightarrow> raw_example list list \<Rightarrow> (string \<rightharpoonup> raw_example list)" where
  "raw_data_dict split raw_datasets =
     fold (\<lambda>(name, raw_dataset) m. m(name \<mapsto> raw_dataset)) (zip split raw_datasets) Map.empty"

text \<open>The inner loop of \<^verbatim>\<open>apply_transform\<close>, \<^verbatim>\<open>tok_ans += text_transform(item)\<close>, and the
  generator itself, as the list of the token lists it yields.\<close>

fun tok_ans_loop :: "(string \<Rightarrow> string list) \<Rightarrow> string list \<Rightarrow> string list \<Rightarrow> string list" where
  "tok_ans_loop text_transform [] tok_ans = tok_ans"
| "tok_ans_loop text_transform (item # rest) tok_ans =
     tok_ans_loop text_transform rest (tok_ans @ text_transform item)"

fun apply_transform :: "(string \<Rightarrow> string list) \<Rightarrow> raw_example list \<Rightarrow> string list list" where
  "apply_transform text_transform [] = []"
| "apply_transform text_transform ((c, q, a, p) # rest) =
     ((text_transform c @ text_transform q) @ tok_ans_loop text_transform a [])
       # apply_transform text_transform rest"

text \<open>The generator of line 90, one dataset for each item of \<^verbatim>\<open>split\<close>;
  \<^verbatim>\<open>raw_data[item]\<close> raises \<^verbatim>\<open>KeyError\<close> on a name the dictionary does not have.\<close>

fun build_datasets ::
  "(string \<rightharpoonup> raw_example list) \<Rightarrow> vocab \<Rightarrow> transforms \<Rightarrow> string list \<Rightarrow>
   py_error + QuestionAnswerDataset list" where
  "build_datasets raw_data v t [] = Inr []"
| "build_datasets raw_data v t (item # rest) =
     (case raw_data item of
        None \<Rightarrow> Inl KeyError
      | Some d \<Rightarrow>
          (case build_datasets raw_data v t rest of
             Inl e \<Rightarrow> Inl e
           | Inr dss \<Rightarrow> Inr (init d v t # dss)))"

text \<open>Lines 73 to 84: the vocabulary in use, built from the train split when none is
  passed.\<close>

definition setup_vocab ::
  "collaborators \<Rightarrow> (string \<Rightarrow> string list) \<Rightarrow> string list \<Rightarrow> (string \<rightharpoonup> raw_example list) \<Rightarrow>
   vocab option \<Rightarrow> py_error + vocab" where
  "setup_vocab env text_transform split raw_data vocab_arg =
     (case vocab_arg of
        None \<Rightarrow>
          if ''train'' \<notin> set split then Inl TypeError
          else (case raw_data ''train'' of
                  None \<Rightarrow> Inl KeyError
                | Some train \<Rightarrow>
                    Inr (build_vocab_from_iterator env
                           (apply_transform text_transform train) (length train)))
      | Some v \<Rightarrow> Inr v)"

text \<open>Lines 86 to 88: the transforms of every dataset of one call.\<close>

definition setup_transforms :: "(string \<Rightarrow> string list) \<Rightarrow> vocab \<Rightarrow> transforms" where
  "setup_transforms text_transform v =
     (let text_transform' = sequential_transforms3 text_transform (vocab_func v) (totensor Long)
      in \<lparr>context_tr = text_transform', question = text_transform',
          answers = text_transform', ans_pos = totensor Long\<rparr>)"

definition setup_datasets ::
  "collaborators \<Rightarrow> string \<Rightarrow> string \<Rightarrow> vocab option \<Rightarrow> (string \<Rightarrow> string list) option \<Rightarrow>
   split_arg \<Rightarrow> py_error + datasets" where
  "setup_datasets env dataset_name root vocab_arg tokenizer_arg split' =
     (let tokenizer = (case tokenizer_arg of
                         None \<Rightarrow> get_tokenizer env ''basic_english''
                       | Some t \<Rightarrow> t);
          text_transform = sequential_transforms1 tokenizer
      in case check_default_set split' [''train'', ''dev''] dataset_name of
           Inl e \<Rightarrow> Inl e
         | Inr split \<Rightarrow>
             (case raw_DATASETS env dataset_name of
                None \<Rightarrow> Inl KeyError
              | Some loader \<Rightarrow>
                  (case loader root split of
                     Inl e \<Rightarrow> Inl e
                   | Inr raw_datasets \<Rightarrow>
                       (let raw_data = raw_data_dict split raw_datasets
                        in case setup_vocab env text_transform split raw_data vocab_arg of
                             Inl e \<Rightarrow> Inl e
                           | Inr v \<Rightarrow>
                               (case build_datasets raw_data v
                                       (setup_transforms text_transform v) split of
                                  Inl e \<Rightarrow> Inl e
                                | Inr dss \<Rightarrow> wrap_datasets dss split')))))"

text \<open>The keyword arguments of a call of \<^verbatim>\<open>SQuAD1\<close> or \<^verbatim>\<open>SQuAD2\<close>: \<open>None\<close> is an
  argument the caller leaves out, which takes the default of the signature.\<close>

record kwargs =
  root_kw :: "string option"
  vocab_kw :: "vocab option option"
  tokenizer_kw :: "(string \<Rightarrow> string list) option option"
  split_kw :: "split_arg option"

definition no_kwargs :: kwargs where
  "no_kwargs = \<lparr>root_kw = None, vocab_kw = None, tokenizer_kw = None, split_kw = None\<rparr>"

definition SQuAD1 :: "collaborators \<Rightarrow> kwargs \<Rightarrow> py_error + datasets" where
  "SQuAD1 env kw =
     setup_datasets env ''SQuAD1''
       (case root_kw kw of None \<Rightarrow> ''.data'' | Some r \<Rightarrow> r)
       (case vocab_kw kw of None \<Rightarrow> None | Some v \<Rightarrow> v)
       (case tokenizer_kw kw of None \<Rightarrow> None | Some t \<Rightarrow> t)
       (case split_kw kw of None \<Rightarrow> SplitTuple [''train'', ''dev''] | Some s \<Rightarrow> s)"

definition SQuAD2 :: "collaborators \<Rightarrow> kwargs \<Rightarrow> py_error + datasets" where
  "SQuAD2 env kw =
     setup_datasets env ''SQuAD2''
       (case root_kw kw of None \<Rightarrow> ''.data'' | Some r \<Rightarrow> r)
       (case vocab_kw kw of None \<Rightarrow> None | Some v \<Rightarrow> v)
       (case tokenizer_kw kw of None \<Rightarrow> None | Some t \<Rightarrow> t)
       (case split_kw kw of None \<Rightarrow> SplitTuple [''train'', ''dev''] | Some s \<Rightarrow> s)"

text \<open>The names a \<^verbatim>\<open>split\<close> argument requests, and the datasets of a factory's
  result, none if it raised.\<close>

fun split_names :: "split_arg \<Rightarrow> string list" where
  "split_names (SplitStr n) = [n]"
| "split_names (SplitTuple ns) = ns"

fun datasets_of :: "py_error + datasets \<Rightarrow> QuestionAnswerDataset list" where
  "datasets_of (Inl e) = []"
| "datasets_of (Inr (One d)) = [d]"
| "datasets_of (Inr (Tuple dss)) = dss"

subsection \<open>Properties of a span\<close>

text \<open>The token subsequence of an encoded sequence from index \<open>s\<close> to index \<open>e\<close>
  inclusive, for \<open>0 \<le> s\<close>: the Python slice \<^verbatim>\<open>xs[s:e+1]\<close>.\<close>

definition tokens_between :: "int list \<Rightarrow> int \<Rightarrow> int \<Rightarrow> int list" where
  "tokens_between xs s e = take (nat (e - s + 1)) (drop (nat s) xs)"

text \<open>The testable property of a span \<open>[start, end]\<close>: \<open>end \<ge> start \<ge> 0\<close>, and the
  tokens of the encoded context from \<open>start\<close> to \<open>end\<close> inclusive are the encoded
  answer.\<close>

fun span_property :: "tensor \<Rightarrow> tensor \<Rightarrow> int list \<Rightarrow> bool" where
  "span_property context_encoded answer_encoded [s, e] =
     (0 \<le> s \<and> s \<le> e \<and> tokens_between (elems context_encoded) s e = elems answer_encoded)"
| "span_property context_encoded answer_encoded se = False"

subsection \<open>Concrete inputs\<close>

text \<open>A whitespace tokenizer a caller may pass: Python's \<^verbatim>\<open>str.split\<close>, which splits at
  runs of whitespace and returns no empty token.\<close>

definition is_space :: "char \<Rightarrow> bool" where
  "is_space c =
     (c \<in> set [CHR 0x09, CHR 0x0A, CHR 0x0B, CHR 0x0C, CHR 0x0D,
               CHR 0x1C, CHR 0x1D, CHR 0x1E, CHR 0x1F, CHR 0x20, CHR 0x85, CHR 0xA0])"

fun split_from :: "string \<Rightarrow> string \<Rightarrow> string list" where
  "split_from cur [] = (if cur = [] then [] else [cur])"
| "split_from cur (c # cs) =
     (if is_space c then (if cur = [] then [] else [cur]) @ split_from [] cs
      else split_from (cur @ [c]) cs)"

definition str_split :: "string \<Rightarrow> string list" where
  "str_split s = split_from [] s"

text \<open>A vocabulary given by its list of tokens: the index of a token is its position,
  counted from \<open>k\<close>, and the index of an unknown token is 0.\<close>

fun stoi :: "string list \<Rightarrow> nat \<Rightarrow> vocab" where
  "stoi [] k tok = 0"
| "stoi (x # xs) k tok = (if x = tok then int k else stoi xs (Suc k) tok)"

text \<open>Collaborators for a test: the loaders of \<open>SQuAD1\<close> and \<open>SQuAD2\<close>, which give for
  each split the same answerable example and one example that records the root, the
  dataset name and the split; the vocabulary numbers the distinct tokens of the token
  stream from 1.\<close>

definition test_raw :: "string \<Rightarrow> string \<Rightarrow> string list \<Rightarrow> py_error + raw_example list list" where
  "test_raw dataset_name root split =
     Inr (map (\<lambda>name. [(''A cat sat.'', ''What sat?'', [''cat'', ''sat.''], [2, 6]),
                        (root, dataset_name, [name], [- 1])]) split)"

definition test_env :: collaborators where
  "test_env =
     \<lparr>raw_DATASETS = [''SQuAD1'' \<mapsto> test_raw ''SQuAD1'', ''SQuAD2'' \<mapsto> test_raw ''SQuAD2''],
      get_tokenizer = (\<lambda>name. str_split),
      build_vocab_from_iterator = (\<lambda>iterator num_lines. stoi (remdups (concat iterator)) 1)\<rparr>"

text \<open>The same collaborators with loaders that raise, as a loader does when it cannot
  fetch the corpus.\<close>

definition failing_env :: collaborators where
  "failing_env =
     \<lparr>raw_DATASETS = [''SQuAD1'' \<mapsto> (\<lambda>root split. Inl RuntimeError),
                       ''SQuAD2'' \<mapsto> (\<lambda>root split. Inl RuntimeError)],
      get_tokenizer = (\<lambda>name. str_split),
      build_vocab_from_iterator = (\<lambda>iterator num_lines. stoi (remdups (concat iterator)) 1)\<rparr>"

text \<open>A dataset for a test: its first example has more answers than offsets, its second
  example has no answer.\<close>

definition test_vocab :: vocab where
  "test_vocab = stoi [''A'', ''cat'', ''sat.'', ''What'', ''sat?''] 1"

definition test_ds :: QuestionAnswerDataset where
  "test_ds =
     init [(''A cat sat.'', ''What sat?'', [''cat'', ''sat.'', ''A''], [2, 6]),
           (''A cat sat.'', ''What flew?'', [''''], [- 1])]
       test_vocab (setup_transforms str_split test_vocab)"

section \<open>Properties of the dataset\<close>

lemmas test_simps = test_ds_def init_def ds_len_def setup_transforms_def Let_def
  sequential_transforms3_def vocab_func_def totensor_def py_prefix_def
  str_split_def is_space_def test_vocab_def

lemma py_index_nat: "idx < length xs \<Longrightarrow> py_index xs (int idx) = Inr (xs ! idx)"
  by (simp add: py_index_def)

lemma py_index_valid: "0 \<le> i \<Longrightarrow> i < int (length xs) \<Longrightarrow> py_index xs i = Inr (xs ! nat i)"
  by (simp add: py_index_def)

lemma len_elems: "len x = length (elems x)"
  by (cases x) simp

text \<open>The loop, run over indices that the answers have, appends one encoded answer and
  one span for each index and does not raise.\<close>

lemma getitem_loop_total:
  "\<forall>idx \<in> set idxs. idx < length raw_answers \<Longrightarrow>
   getitem_loop t rc raw_answers rs idxs (as, ps) =
     Inr (as @ map (\<lambda>idx. answers t (raw_answers ! idx)) idxs,
          ps @ map (\<lambda>idx. if rs ! idx = - 1 then ans_pos t [- 1, - 1]
                           else ans_pos t (span t rc (raw_answers ! idx) (rs ! idx))) idxs)"
proof (induction idxs arbitrary: as ps)
  case Nil
  then show ?case by simp
next
  case (Cons idx rest)
  then show ?case by (simp add: py_index_nat Let_def)
qed

lemma getitem_total:
  assumes "0 \<le> i" and "i < ds_len ds"
    and "data ds ! nat i = (rc, rq, ra, rs)"
    and "length rs \<le> length ra"
  shows "getitem ds i =
     Inr (context_tr (transforms ds) rc, question (transforms ds) rq,
          map (\<lambda>idx. answers (transforms ds) (ra ! idx)) [0..<length rs],
          map (\<lambda>idx. if rs ! idx = - 1 then ans_pos (transforms ds) [- 1, - 1]
                      else ans_pos (transforms ds) (span (transforms ds) rc (ra ! idx) (rs ! idx)))
            [0..<length rs])"
proof -
  have "py_index (data ds) i = Inr (rc, rq, ra, rs)"
    using assms(1-3) by (simp add: py_index_valid ds_len_def)
  moreover have "\<forall>idx \<in> set [0..<length rs]. idx < length ra"
    using assms(4) by simp
  ultimately show ?thesis
    by (simp add: getitem_def getitem_loop_total)
qed

text \<open>
  Claim C1. For a dataset \<open>ds\<close>, a valid index \<open>i\<close> whose raw example is
  \<open>(rc, rq, ra, rs)\<close> with at least as many answers as offsets, and an answer \<open>j\<close> whose
  offset \<open>rs ! j\<close> is not \<open>-1\<close>: \<open>getitem\<close> returns, and its \<open>j\<close>-th span is the
  \<open>ans_pos\<close> transform of \<open>[start, end]\<close>, where \<open>start\<close> is the number of tokens of the
  context transform of the prefix \<open>rc[:rs ! j]\<close> and \<open>end\<close> is \<open>start\<close> plus the number of
  tokens of the answers transform of \<open>ra ! j\<close>, minus 1. In particular, with the
  whitespace tokenizer and any vocabulary, the context \<open>A cat sat.\<close> with answers
  \<open>[cat]\<close> and offsets \<open>[2]\<close> has the span \<open>[1, 1]\<close>.
\<close>

theorem getitem_answer_span:
  assumes "0 \<le> i" and "i < ds_len ds"
    and "data ds ! nat i = (rc, rq, ra, rs)"
    and "length rs \<le> length ra"
    and "j < length rs" and "rs ! j \<noteq> - 1"
  shows "(\<exists>c q as ps. getitem ds i = Inr (c, q, as, ps) \<and>
           ps ! j = ans_pos (transforms ds)
             [int (len (context_tr (transforms ds) (py_prefix rc (rs ! j)))),
              int (len (context_tr (transforms ds) (py_prefix rc (rs ! j))))
                + int (len (answers (transforms ds) (ra ! j))) - 1]) \<and>
         getitem (init [(''A cat sat.'', ''What sat?'', [''cat''], [2])] v
                    (setup_transforms str_split v)) 0 =
           Inr (Tensor Long (map v [''A'', ''cat'', ''sat.'']),
                Tensor Long (map v [''What'', ''sat?'']),
                [Tensor Long [v ''cat'']], [Tensor Long [1, 1]])"
proof
  show "\<exists>c q as ps. getitem ds i = Inr (c, q, as, ps) \<and>
           ps ! j = ans_pos (transforms ds)
             [int (len (context_tr (transforms ds) (py_prefix rc (rs ! j)))),
              int (len (context_tr (transforms ds) (py_prefix rc (rs ! j))))
                + int (len (answers (transforms ds) (ra ! j))) - 1]"
    using getitem_total [OF assms(1-4)] assms(5,6) by (simp add: span_def Let_def)
  show "getitem (init [(''A cat sat.'', ''What sat?'', [''cat''], [2])] v
                    (setup_transforms str_split v)) 0 =
           Inr (Tensor Long (map v [''A'', ''cat'', ''sat.'']),
                Tensor Long (map v [''What'', ''sat?'']),
                [Tensor Long [v ''cat'']], [Tensor Long [1, 1]])"
    by (simp add: getitem_def init_def py_index_def setup_transforms_def Let_def span_def
        sequential_transforms3_def vocab_func_def totensor_def py_prefix_def
        str_split_def is_space_def)
qed

theorem getitem_answer_span_witness:
  "(0::int) \<le> 0 \<and> 0 < ds_len test_ds \<and>
   data test_ds ! nat 0 = (''A cat sat.'', ''What sat?'', [''cat'', ''sat.'', ''A''], [2, 6]) \<and>
   length [2, 6 :: int] \<le> length [''cat'', ''sat.'', ''A''] \<and> (1::nat) < length [2, 6 :: int] \<and>
   [2, 6 :: int] ! 1 \<noteq> - 1 \<and>
   (\<exists>c q as ps. getitem test_ds 0 = Inr (c, q, as, ps) \<and> ps ! 1 = Tensor Long [2, 2])"
  using getitem_answer_span
    [of 0 test_ds "''A cat sat.''" "''What sat?''" "[''cat'', ''sat.'', ''A'']" "[2, 6]" 1]
  by (simp add: test_simps)

text \<open>
  Claim C2 as stated: for every answer \<open>j\<close> whose offset is not \<open>-1\<close> the recomputed
  span \<open>[start, end]\<close> has \<open>end \<ge> start \<ge> 0\<close> and the tokens of the encoded context
  from \<open>start\<close> to \<open>end\<close> inclusive are the encoded answer, for any tokenizer and
  vocabulary. It fails for the whitespace tokenizer on the context \<open>A cat.\<close> with the
  answer \<open>cat\<close> at offset 2: the span is \<open>[1, 1]\<close>, token 1 of the context is \<open>cat.\<close>
  and the answer is the token \<open>cat\<close>.
\<close>

theorem span_property_counterexample:
  "getitem (init [(''A cat.'', ''What?'', [''cat''], [2])] (stoi [''A'', ''cat.'', ''cat''] 1)
      (setup_transforms str_split (stoi [''A'', ''cat.'', ''cat''] 1))) 0 =
     Inr (Tensor Long [1, 2], Tensor Long [0], [Tensor Long [3]], [Tensor Long [1, 1]]) \<and>
   \<not> span_property (Tensor Long [1, 2]) (Tensor Long [3]) [1, 1]"
  by (simp add: getitem_def init_def py_index_def setup_transforms_def Let_def span_def
        sequential_transforms3_def vocab_func_def totensor_def py_prefix_def
        str_split_def is_space_def tokens_between_def)

lemma tokens_between_middle:
  "tokens_between (p @ a @ rest) (int (length p)) (int (length p) + int (length a) - 1) = a"
  by (simp add: tokens_between_def)

text \<open>
  Claim C2, amended. For a valid index whose raw example has at least as many answers as
  offsets and an answer \<open>j\<close> whose offset is not \<open>-1\<close>, the recomputed span
  \<open>[start, end]\<close> has \<open>start \<ge> 0\<close> and \<open>end = start + n - 1\<close>, where \<open>n\<close> is the number of
  tokens of the encoded answer, so \<open>end \<ge> start\<close> exactly when the answer has a token;
  and when the answer has a token and the encoded context is the encoded prefix
  followed by the encoded answer followed by any rest, the tokens of the encoded
  context from \<open>start\<close> to \<open>end\<close> inclusive are the encoded answer.
\<close>

theorem span_property_amended:
  assumes "0 \<le> i" and "i < ds_len ds"
    and "data ds ! nat i = (rc, rq, ra, rs)"
    and "length rs \<le> length ra"
    and "j < length rs" and "rs ! j \<noteq> - 1"
  shows "\<exists>c q as ps s e. getitem ds i = Inr (c, q, as, ps) \<and>
           ps ! j = ans_pos (transforms ds) [s, e] \<and>
           s = int (len (context_tr (transforms ds) (py_prefix rc (rs ! j)))) \<and>
           e = s + int (len (as ! j)) - 1 \<and>
           0 \<le> s \<and> (s \<le> e \<longleftrightarrow> 0 < len (as ! j)) \<and>
           (0 < len (as ! j) \<and>
            (\<exists>rest. elems c = elems (context_tr (transforms ds) (py_prefix rc (rs ! j)))
                                @ elems (as ! j) @ rest)
            \<longrightarrow> span_property c (as ! j) [s, e])"
proof -
  let ?t = "transforms ds"
  let ?p = "context_tr ?t (py_prefix rc (rs ! j))"
  let ?a = "answers ?t (ra ! j)"
  let ?s = "int (len ?p)"
  let ?e = "?s + int (len ?a) - 1"
  let ?as = "map (\<lambda>idx. answers ?t (ra ! idx)) [0..<length rs]"
  let ?ps = "map (\<lambda>idx. if rs ! idx = - 1 then ans_pos ?t [- 1, - 1]
                      else ans_pos ?t (span ?t rc (ra ! idx) (rs ! idx))) [0..<length rs]"
  have g: "getitem ds i = Inr (context_tr ?t rc, question ?t rq, ?as, ?ps)"
    by (rule getitem_total [OF assms(1-4)])
  have a: "?as ! j = ?a" using assms(5) by simp
  have p: "?ps ! j = ans_pos ?t [?s, ?e]"
    using assms(5,6) by (simp add: span_def Let_def)
  have ord: "?s \<le> ?e \<longleftrightarrow> 0 < len ?a" by auto
  have sub: "span_property (context_tr ?t rc) ?a [?s, ?e]"
    if "0 < len ?a" and "elems (context_tr ?t rc) = elems ?p @ elems ?a @ rest" for rest
    using that tokens_between_middle [of "elems ?p" "elems ?a" rest]
    by (simp add: len_elems)
  show ?thesis
    using g a p ord sub by (intro exI [of _ "context_tr ?t rc"] exI [of _ "question ?t rq"]
        exI [of _ ?as] exI [of _ ?ps] exI [of _ ?s] exI [of _ ?e]) auto
qed

theorem span_property_amended_witness:
  "(0::int) \<le> 0 \<and> 0 < ds_len test_ds \<and>
   data test_ds ! nat 0 = (''A cat sat.'', ''What sat?'', [''cat'', ''sat.'', ''A''], [2, 6]) \<and>
   length [2, 6 :: int] \<le> length [''cat'', ''sat.'', ''A''] \<and> (0::nat) < length [2, 6 :: int] \<and>
   [2, 6 :: int] ! 0 \<noteq> - 1 \<and>
   (\<exists>c q as ps. getitem test_ds 0 = Inr (c, q, as, ps) \<and> ps ! 0 = Tensor Long [1, 1] \<and>
      elems c = [1] @ elems (as ! 0) @ [3] \<and> 0 < len (as ! 0) \<and>
      span_property c (as ! 0) [1, 1])"
proof -
  have h: "(0::int) \<le> 0" "0 < ds_len test_ds"
    "data test_ds ! nat 0 = (''A cat sat.'', ''What sat?'', [''cat'', ''sat.'', ''A''], [2, 6])"
    "length [2, 6 :: int] \<le> length [''cat'', ''sat.'', ''A'']"
    "(0::nat) < length [2, 6 :: int]" "[2, 6 :: int] ! 0 \<noteq> - 1"
    by (simp_all add: test_simps)
  from span_property_amended [OF h] obtain c q as ps s e where
    g: "getitem test_ds 0 = Inr (c, q, as, ps)"
    and p: "ps ! 0 = ans_pos (transforms test_ds) [s, e]"
    and s: "s = int (len (context_tr (transforms test_ds) (py_prefix ''A cat sat.'' ([2, 6] ! 0))))"
    and e: "e = s + int (len (as ! 0)) - 1"
    and sub: "0 < len (as ! 0) \<and>
            (\<exists>rest. elems c =
                elems (context_tr (transforms test_ds) (py_prefix ''A cat sat.'' ([2, 6] ! 0)))
                  @ elems (as ! 0) @ rest)
            \<longrightarrow> span_property c (as ! 0) [s, e]"
    by blast
  have g': "getitem test_ds 0 = Inr (Tensor Long [1, 2, 3], Tensor Long [4, 5],
              [Tensor Long [2], Tensor Long [3]], [Tensor Long [1, 1], Tensor Long [2, 2]])"
    by (simp add: getitem_def py_index_def span_def test_simps)
  from g g' have c: "c = Tensor Long [1, 2, 3]" and as: "as = [Tensor Long [2], Tensor Long [3]]"
    by simp_all
  have s1: "s = 1" using s by (simp add: test_simps)
  have e1: "e = 1" using e s1 as by simp
  have pre: "elems (context_tr (transforms test_ds) (py_prefix ''A cat sat.'' ([2, 6] ! 0))) = [1]"
    by (simp add: test_simps)
  have "span_property c (as ! 0) [1, 1]"
    using sub c as s1 e1 pre by simp
  then show ?thesis using h g p s1 e1 c as by (simp add: test_simps)
qed

text \<open>
  Claim C3. For a dataset, a valid index whose raw example has at least as many answers
  as offsets, and an answer \<open>j\<close> whose offset is \<open>-1\<close>: \<open>getitem\<close> returns, and its
  \<open>j\<close>-th span is the \<open>ans_pos\<close> transform of \<open>[-1, -1]\<close>, whatever the context, the
  answer and the transforms are.
\<close>

theorem getitem_no_answer_span:
  assumes "0 \<le> i" and "i < ds_len ds"
    and "data ds ! nat i = (rc, rq, ra, rs)"
    and "length rs \<le> length ra"
    and "j < length rs" and "rs ! j = - 1"
  shows "\<exists>c q as ps. getitem ds i = Inr (c, q, as, ps) \<and>
           ps ! j = ans_pos (transforms ds) [- 1, - 1]"
  using getitem_total [OF assms(1-4)] assms(5,6) by simp

theorem getitem_no_answer_span_witness:
  "(0::int) \<le> 1 \<and> 1 < ds_len test_ds \<and>
   data test_ds ! nat 1 = (''A cat sat.'', ''What flew?'', [''''], [- 1]) \<and>
   length [- 1 :: int] \<le> length [''''] \<and> (0::nat) < length [- 1 :: int] \<and>
   [- 1 :: int] ! 0 = - 1 \<and>
   (\<exists>c q as ps. getitem test_ds 1 = Inr (c, q, as, ps) \<and> ps ! 0 = Tensor Long [- 1, - 1])"
  using getitem_no_answer_span
    [of 1 test_ds "''A cat sat.''" "''What flew?''" "['''']" "[- 1]" 0]
  by (simp add: test_simps)

text \<open>
  Claim C4 as stated: \<open>getitem\<close> fails with an index error for every index outside
  \<open>[0, length)\<close>. It fails at the index \<open>-1\<close> of a dataset of one example: the access
  \<^verbatim>\<open>self.data[-1]\<close> reads the last example.
\<close>

theorem getitem_negative_index_counterexample:
  "\<not> (0 \<le> (- 1 :: int) \<and>
      (- 1 :: int) < ds_len (init [(''A cat sat.'', ''What sat?'', [''cat''], [2])] test_vocab
                              (setup_transforms str_split test_vocab))) \<and>
   getitem (init [(''A cat sat.'', ''What sat?'', [''cat''], [2])] test_vocab
              (setup_transforms str_split test_vocab)) (- 1) \<noteq> Inl IndexError"
  by (simp add: getitem_def init_def py_index_def setup_transforms_def Let_def span_def
        sequential_transforms3_def vocab_func_def totensor_def py_prefix_def
        str_split_def is_space_def)

text \<open>
  Claim C4, amended. The length of a dataset constructed from a sequence of raw examples
  is the number of those examples; \<open>getitem\<close> fails with an index error for every index
  \<open>i \<ge> length\<close>, in particular \<open>i = length\<close>, and for every index \<open>i < -length\<close>; for
  \<open>-length \<le> i < 0\<close> it is \<open>getitem\<close> at \<open>length + i\<close>.
\<close>

theorem getitem_index_error:
  "ds_len (init d v t) = int (length d) \<and>
   (ds_len ds \<le> i \<or> i < - ds_len ds \<longrightarrow> getitem ds i = Inl IndexError) \<and>
   getitem ds (ds_len ds) = Inl IndexError \<and>
   (- ds_len ds \<le> i \<and> i < 0 \<longrightarrow> getitem ds i = getitem ds (ds_len ds + i))"
  by (auto simp add: ds_len_def init_def getitem_def py_index_def Let_def)

theorem getitem_index_error_witness:
  "ds_len test_ds = 2 \<and> getitem test_ds 2 = Inl IndexError \<and>
   getitem test_ds 5 = Inl IndexError \<and> getitem test_ds (- 3) = Inl IndexError \<and>
   getitem test_ds (- 1) = getitem test_ds 1"
proof -
  have l: "ds_len test_ds = 2"
    using getitem_index_error
      [of "[(''A cat sat.'', ''What sat?'', [''cat'', ''sat.'', ''A''], [2, 6]),
            (''A cat sat.'', ''What flew?'', [''''], [- 1])]" test_vocab
        "setup_transforms str_split test_vocab" test_ds 0]
    by (simp add: test_ds_def)
  show ?thesis
    using l getitem_index_error [of "[]" test_vocab "setup_transforms str_split test_vocab" test_ds 5]
      getitem_index_error [of "[]" test_vocab "setup_transforms str_split test_vocab" test_ds "- 3"]
      getitem_index_error [of "[]" test_vocab "setup_transforms str_split test_vocab" test_ds "- 1"]
    by simp
qed

text \<open>
  Claim C10. The loop of \<open>getitem\<close> runs over the offsets: for a valid index whose raw
  example has at least as many answers as offsets, \<open>getitem\<close> returns a list of encoded
  answers and a list of spans that both have the length of the offsets, not of the
  answers, and the \<open>j\<close>-th span is the span of the \<open>j\<close>-th encoded answer.
\<close>

theorem getitem_lengths:
  assumes "0 \<le> i" and "i < ds_len ds"
    and "data ds ! nat i = (rc, rq, ra, rs)"
    and "length rs \<le> length ra"
  shows "\<exists>c q as ps. getitem ds i = Inr (c, q, as, ps) \<and>
           length as = length rs \<and> length ps = length rs \<and>
           (\<forall>j < length rs.
              as ! j = answers (transforms ds) (ra ! j) \<and>
              ps ! j = (if rs ! j = - 1 then ans_pos (transforms ds) [- 1, - 1]
                        else ans_pos (transforms ds) (span (transforms ds) rc (ra ! j) (rs ! j))))"
  using getitem_total [OF assms] by simp

theorem getitem_lengths_witness:
  "(0::int) \<le> 0 \<and> 0 < ds_len test_ds \<and>
   data test_ds ! nat 0 = (''A cat sat.'', ''What sat?'', [''cat'', ''sat.'', ''A''], [2, 6]) \<and>
   length [2, 6 :: int] \<le> length [''cat'', ''sat.'', ''A''] \<and>
   (\<exists>c q as ps. getitem test_ds 0 = Inr (c, q, as, ps) \<and> length as = 2 \<and> length ps = 2 \<and>
      as ! 0 = Tensor Long [2] \<and> ps ! 0 = Tensor Long [1, 1] \<and>
      as ! 1 = Tensor Long [3] \<and> ps ! 1 = Tensor Long [2, 2])"
proof -
  have h: "(0::int) \<le> 0" "0 < ds_len test_ds"
    "data test_ds ! nat 0 = (''A cat sat.'', ''What sat?'', [''cat'', ''sat.'', ''A''], [2, 6])"
    "length [2, 6 :: int] \<le> length [''cat'', ''sat.'', ''A'']"
    by (simp_all add: test_simps)
  from getitem_lengths [OF h] obtain c q as ps where
    g: "getitem test_ds 0 = Inr (c, q, as, ps)" and l: "length as = 2" "length ps = 2"
    and a: "\<forall>j<2. as ! j = answers (transforms test_ds) ([''cat'', ''sat.'', ''A''] ! j) \<and>
              ps ! j = (if [2, 6 :: int] ! j = - 1 then ans_pos (transforms test_ds) [- 1, - 1]
                        else ans_pos (transforms test_ds)
                               (span (transforms test_ds) ''A cat sat.''
                                  ([''cat'', ''sat.'', ''A''] ! j) ([2, 6] ! j)))"
    by auto
  from a have "as ! 0 = Tensor Long [2] \<and> ps ! 0 = Tensor Long [1, 1]"
    by (simp add: test_simps span_def)
  moreover from a have "as ! 1 = Tensor Long [3] \<and> ps ! 1 = Tensor Long [2, 2]"
    by (simp add: test_simps span_def)
  ultimately show ?thesis using h g l by simp
qed

section \<open>Properties of the factory\<close>

lemma check_default_set_eq:
  "check_default_set split' target dataset_name =
     (if set (split_names split') \<subseteq> set target then Inr (split_names split') else Inl TypeError)"
  by (cases split') (simp_all add: check_default_set_def)

lemma build_datasets_error: "build_datasets raw_data v t names = Inl e \<Longrightarrow> e = KeyError"
  by (induction names arbitrary: e) (auto split: option.splits sum.splits)

lemma wrap_datasets_error: "wrap_datasets dss split' = Inl e \<Longrightarrow> e = ValueError"
  by (auto simp add: wrap_datasets_def split: split_arg.splits list.splits)

lemma setup_vocab_TypeError:
  "setup_vocab env tt split raw_data vocab_arg = Inl TypeError \<longleftrightarrow>
     vocab_arg = None \<and> ''train'' \<notin> set split"
  by (auto simp add: setup_vocab_def split: option.splits)

text \<open>The check of the split names comes first: an unrecognized name raises before the
  loader is looked up.\<close>

lemma setup_datasets_invalid:
  "\<not> set (split_names split') \<subseteq> {''train'', ''dev''} \<Longrightarrow>
   setup_datasets env dataset_name root vocab_arg tokenizer_arg split' = Inl TypeError"
  by (simp add: setup_datasets_def check_default_set_eq Let_def)

text \<open>The lookup of the loader and its call come next, before the vocabulary is looked
  at: what they raise is what the factory raises.\<close>

lemma setup_datasets_no_loader:
  "set (split_names split') \<subseteq> {''train'', ''dev''} \<Longrightarrow> raw_DATASETS env dataset_name = None \<Longrightarrow>
   setup_datasets env dataset_name root vocab_arg tokenizer_arg split' = Inl KeyError"
  by (simp add: setup_datasets_def check_default_set_eq Let_def)

lemma setup_datasets_loader_error:
  "set (split_names split') \<subseteq> {''train'', ''dev''} \<Longrightarrow>
   raw_DATASETS env dataset_name = Some loader \<Longrightarrow> loader root (split_names split') = Inl e \<Longrightarrow>
   setup_datasets env dataset_name root vocab_arg tokenizer_arg split' = Inl e"
  by (simp add: setup_datasets_def check_default_set_eq Let_def)

lemma setup_datasets_TypeError:
  assumes "raw_DATASETS env dataset_name = Some loader"
    and "loader root (split_names split') = Inr loaded"
  shows "setup_datasets env dataset_name root vocab_arg tokenizer_arg split' = Inl TypeError \<longleftrightarrow>
     \<not> set (split_names split') \<subseteq> {''train'', ''dev''} \<or>
     vocab_arg = None \<and> ''train'' \<notin> set (split_names split')"
proof (cases "set (split_names split') \<subseteq> {''train'', ''dev''}")
  case False
  then show ?thesis
    by (simp add: setup_datasets_invalid)
next
  case True
  let ?tt = "sequential_transforms1
               (case tokenizer_arg of None \<Rightarrow> get_tokenizer env ''basic_english'' | Some t \<Rightarrow> t)"
  let ?split = "split_names split'"
  let ?rd = "raw_data_dict ?split loaded"
  show ?thesis
  proof (cases "setup_vocab env ?tt ?split ?rd vocab_arg")
    case (Inl e)
    then show ?thesis
      using True assms setup_vocab_TypeError [of env ?tt ?split ?rd vocab_arg]
      by (auto simp add: setup_datasets_def check_default_set_eq Let_def)
  next
    case (Inr v)
    have "vocab_arg \<noteq> None \<or> ''train'' \<in> set ?split"
      using Inr setup_vocab_TypeError [of env ?tt ?split ?rd vocab_arg] by auto
    moreover have
      "setup_datasets env dataset_name root vocab_arg tokenizer_arg split' \<noteq> Inl TypeError"
      using True Inr assms
      by (auto simp add: setup_datasets_def check_default_set_eq Let_def
          split: sum.splits dest: build_datasets_error wrap_datasets_error)
    ultimately show ?thesis using True by auto
  qed
qed

text \<open>
  Claim C5 as stated: the factory raises its usage error if and only if some requested
  split name is not \<open>train\<close> or \<open>dev\<close>, or no vocabulary is supplied and \<open>train\<close> is
  not among the requested splits. It fails for the call of \<open>SQuAD1\<close> with the split
  \<open>dev\<close> and no vocabulary when the raw loader raises, and for a dataset name that
  \<^verbatim>\<open>raw.DATASETS\<close> does not have: the loader is looked up and called on lines 71 and 72,
  before the check of lines 73 to 75, and its exception is raised in place of the usage
  error.
\<close>

theorem usage_error_counterexample:
  "''train'' \<notin> set (split_names (SplitStr ''dev'')) \<and>
   SQuAD1 failing_env
     \<lparr>root_kw = None, vocab_kw = None, tokenizer_kw = None, split_kw = Some (SplitStr ''dev'')\<rparr>
     = Inl RuntimeError \<and>
   setup_datasets test_env ''SQuAD3'' ''.data'' None None (SplitStr ''dev'') = Inl KeyError"
  by (simp add: SQuAD1_def setup_datasets_def check_default_set_def Let_def
      failing_env_def test_env_def)

text \<open>
  Claim C5, amended. An unrecognized split name raises the usage error, a
  \<^verbatim>\<open>TypeError\<close>, whatever the loader does. When the requested names are all \<open>train\<close> or
  \<open>dev\<close>, a dataset name without a loader raises \<^verbatim>\<open>KeyError\<close> and a loader that raises
  makes the factory raise the loader's exception, whether or not a vocabulary is
  supplied. When the loader of the dataset exists and returns for the requested names,
  the factory raises the usage error, and so returns no dataset, if and only if some
  requested split name is not \<open>train\<close> or \<open>dev\<close>, or no vocabulary is supplied and
  \<open>train\<close> is not among the requested splits; so do \<open>SQuAD1\<close> and \<open>SQuAD2\<close> on the
  root, the split and the vocabulary of their call.
\<close>

theorem setup_datasets_usage_error:
  "(\<not> set (split_names split') \<subseteq> {''train'', ''dev''} \<longrightarrow>
      setup_datasets env dataset_name root vocab_arg tokenizer_arg split' = Inl TypeError) \<and>
   (set (split_names split') \<subseteq> {''train'', ''dev''} \<and> raw_DATASETS env dataset_name = None \<longrightarrow>
      setup_datasets env dataset_name root vocab_arg tokenizer_arg split' = Inl KeyError) \<and>
   (set (split_names split') \<subseteq> {''train'', ''dev''} \<and>
    raw_DATASETS env dataset_name = Some loader \<and> loader root (split_names split') = Inl e \<longrightarrow>
      setup_datasets env dataset_name root vocab_arg tokenizer_arg split' = Inl e) \<and>
   (raw_DATASETS env dataset_name = Some loader \<and> loader root (split_names split') = Inr loaded \<longrightarrow>
      (setup_datasets env dataset_name root vocab_arg tokenizer_arg split' = Inl TypeError \<longleftrightarrow>
         \<not> set (split_names split') \<subseteq> {''train'', ''dev''} \<or>
         vocab_arg = None \<and> ''train'' \<notin> set (split_names split'))) \<and>
   (let requested = (case split_kw kw of None \<Rightarrow> SplitTuple [''train'', ''dev''] | Some s \<Rightarrow> s);
        supplied = (case vocab_kw kw of None \<Rightarrow> None | Some v \<Rightarrow> v);
        dir = (case root_kw kw of None \<Rightarrow> ''.data'' | Some r \<Rightarrow> r)
    in (raw_DATASETS env ''SQuAD1'' = Some loader1 \<and>
        loader1 dir (split_names requested) = Inr loaded1 \<longrightarrow>
          (SQuAD1 env kw = Inl TypeError \<longleftrightarrow>
             \<not> set (split_names requested) \<subseteq> {''train'', ''dev''} \<or>
             supplied = None \<and> ''train'' \<notin> set (split_names requested))) \<and>
       (raw_DATASETS env ''SQuAD2'' = Some loader2 \<and>
        loader2 dir (split_names requested) = Inr loaded2 \<longrightarrow>
          (SQuAD2 env kw = Inl TypeError \<longleftrightarrow>
             \<not> set (split_names requested) \<subseteq> {''train'', ''dev''} \<or>
             supplied = None \<and> ''train'' \<notin> set (split_names requested))))"
proof -
  have a: "\<not> set (split_names split') \<subseteq> {''train'', ''dev''} \<longrightarrow>
      setup_datasets env dataset_name root vocab_arg tokenizer_arg split' = Inl TypeError"
    by (simp add: setup_datasets_invalid)
  have b: "set (split_names split') \<subseteq> {''train'', ''dev''} \<and> raw_DATASETS env dataset_name = None \<longrightarrow>
      setup_datasets env dataset_name root vocab_arg tokenizer_arg split' = Inl KeyError"
    by (simp add: setup_datasets_no_loader)
  have c: "set (split_names split') \<subseteq> {''train'', ''dev''} \<and>
    raw_DATASETS env dataset_name = Some loader \<and> loader root (split_names split') = Inl e \<longrightarrow>
      setup_datasets env dataset_name root vocab_arg tokenizer_arg split' = Inl e"
    by (simp add: setup_datasets_loader_error)
  have d: "raw_DATASETS env dataset_name = Some loader \<and>
      loader root (split_names split') = Inr loaded \<longrightarrow>
      (setup_datasets env dataset_name root vocab_arg tokenizer_arg split' = Inl TypeError \<longleftrightarrow>
         \<not> set (split_names split') \<subseteq> {''train'', ''dev''} \<or>
         vocab_arg = None \<and> ''train'' \<notin> set (split_names split'))"
    using setup_datasets_TypeError by blast
  have s: "let requested = (case split_kw kw of None \<Rightarrow> SplitTuple [''train'', ''dev''] | Some s \<Rightarrow> s);
        supplied = (case vocab_kw kw of None \<Rightarrow> None | Some v \<Rightarrow> v);
        dir = (case root_kw kw of None \<Rightarrow> ''.data'' | Some r \<Rightarrow> r)
    in (raw_DATASETS env ''SQuAD1'' = Some loader1 \<and>
        loader1 dir (split_names requested) = Inr loaded1 \<longrightarrow>
          (SQuAD1 env kw = Inl TypeError \<longleftrightarrow>
             \<not> set (split_names requested) \<subseteq> {''train'', ''dev''} \<or>
             supplied = None \<and> ''train'' \<notin> set (split_names requested))) \<and>
       (raw_DATASETS env ''SQuAD2'' = Some loader2 \<and>
        loader2 dir (split_names requested) = Inr loaded2 \<longrightarrow>
          (SQuAD2 env kw = Inl TypeError \<longleftrightarrow>
             \<not> set (split_names requested) \<subseteq> {''train'', ''dev''} \<or>
             supplied = None \<and> ''train'' \<notin> set (split_names requested)))"
    unfolding Let_def SQuAD1_def SQuAD2_def
    using setup_datasets_TypeError by blast
  from a b c d s show ?thesis by blast
qed

theorem setup_datasets_usage_error_witness:
  "setup_datasets test_env ''SQuAD1'' ''.data'' None None (SplitStr ''dev'') = Inl TypeError \<and>
   setup_datasets test_env ''SQuAD1'' ''.data'' None None (SplitTuple [''train'', ''test''])
     = Inl TypeError \<and>
   setup_datasets failing_env ''SQuAD1'' ''.data'' None None (SplitTuple [''train'', ''test''])
     = Inl TypeError \<and>
   setup_datasets test_env ''SQuAD1'' ''.data'' (Some test_vocab) None (SplitStr ''dev'')
     \<noteq> Inl TypeError \<and>
   setup_datasets test_env ''SQuAD1'' ''.data'' None None (SplitTuple [''train'', ''dev''])
     \<noteq> Inl TypeError \<and>
   setup_datasets test_env ''SQuAD3'' ''.data'' None None (SplitStr ''dev'') = Inl KeyError \<and>
   setup_datasets failing_env ''SQuAD2'' ''.data'' None None (SplitStr ''dev'') = Inl RuntimeError \<and>
   SQuAD2 test_env
     \<lparr>root_kw = None, vocab_kw = None, tokenizer_kw = None,
      split_kw = Some (SplitTuple [''dev''])\<rparr> = Inl TypeError \<and>
   SQuAD1 test_env no_kwargs \<noteq> Inl TypeError"
proof -
  let ?fail = "\<lambda>(root :: string) (split :: string list).
                 (Inl RuntimeError :: py_error + raw_example list list)"
  have t1: "raw_DATASETS test_env ''SQuAD1'' = Some (test_raw ''SQuAD1'')"
    and t2: "raw_DATASETS test_env ''SQuAD2'' = Some (test_raw ''SQuAD2'')"
    and t3: "raw_DATASETS test_env ''SQuAD3'' = None"
    and f1: "raw_DATASETS failing_env ''SQuAD1'' = Some ?fail"
    and f2: "raw_DATASETS failing_env ''SQuAD2'' = Some ?fail"
    by (simp_all add: test_env_def failing_env_def)
  have r: "test_raw n root names =
             Inr (map (\<lambda>name. [(''A cat sat.'', ''What sat?'', [''cat'', ''sat.''], [2, 6]),
                                (root, n, [name], [- 1])]) names)" for n root names
    by (simp add: test_raw_def)
  have "setup_datasets test_env ''SQuAD1'' ''.data'' None None (SplitStr ''dev'') = Inl TypeError"
    using setup_datasets_usage_error
      [of "SplitStr ''dev''" test_env "''SQuAD1''" "''.data''" None None "test_raw ''SQuAD1''"
          RuntimeError _ no_kwargs] t1 r
    by simp
  moreover have
    "setup_datasets test_env ''SQuAD1'' ''.data'' None None (SplitTuple [''train'', ''test''])
       = Inl TypeError"
    using setup_datasets_usage_error
      [of "SplitTuple [''train'', ''test'']" test_env "''SQuAD1''" "''.data''" None None
          "test_raw ''SQuAD1''" RuntimeError _ no_kwargs]
    by simp
  moreover have
    "setup_datasets failing_env ''SQuAD1'' ''.data'' None None (SplitTuple [''train'', ''test''])
       = Inl TypeError"
    using setup_datasets_usage_error
      [of "SplitTuple [''train'', ''test'']" failing_env "''SQuAD1''" "''.data''" None None
          ?fail RuntimeError _ no_kwargs]
    by simp
  moreover have
    "setup_datasets test_env ''SQuAD1'' ''.data'' (Some test_vocab) None (SplitStr ''dev'')
       \<noteq> Inl TypeError"
    using setup_datasets_usage_error
      [of "SplitStr ''dev''" test_env "''SQuAD1''" "''.data''" "Some test_vocab" None
          "test_raw ''SQuAD1''" RuntimeError _ no_kwargs] t1 r
    by simp
  moreover have
    "setup_datasets test_env ''SQuAD1'' ''.data'' None None (SplitTuple [''train'', ''dev''])
       \<noteq> Inl TypeError"
    using setup_datasets_usage_error
      [of "SplitTuple [''train'', ''dev'']" test_env "''SQuAD1''" "''.data''" None None
          "test_raw ''SQuAD1''" RuntimeError _ no_kwargs] t1 r
    by simp
  moreover have
    "setup_datasets test_env ''SQuAD3'' ''.data'' None None (SplitStr ''dev'') = Inl KeyError"
    using setup_datasets_usage_error
      [of "SplitStr ''dev''" test_env "''SQuAD3''" "''.data''" None None
          "test_raw ''SQuAD1''" RuntimeError _ no_kwargs] t3
    by simp
  moreover have
    "setup_datasets failing_env ''SQuAD2'' ''.data'' None None (SplitStr ''dev'') = Inl RuntimeError"
    using setup_datasets_usage_error
      [of "SplitStr ''dev''" failing_env "''SQuAD2''" "''.data''" None None
          ?fail RuntimeError _ no_kwargs] f2
    by simp
  moreover have
    "SQuAD2 test_env
       \<lparr>root_kw = None, vocab_kw = None, tokenizer_kw = None,
        split_kw = Some (SplitTuple [''dev''])\<rparr> = Inl TypeError"
    using setup_datasets_usage_error
      [of "SplitStr ''dev''" test_env "''SQuAD1''" "''.data''" None None "test_raw ''SQuAD1''"
          RuntimeError _
          "\<lparr>root_kw = None, vocab_kw = None, tokenizer_kw = None,
            split_kw = Some (SplitTuple [''dev''])\<rparr>"
          "test_raw ''SQuAD1''" _ "test_raw ''SQuAD2''"] t2 r
    by (simp add: Let_def)
  moreover have "SQuAD1 test_env no_kwargs \<noteq> Inl TypeError"
    using setup_datasets_usage_error
      [of "SplitStr ''dev''" test_env "''SQuAD1''" "''.data''" None None "test_raw ''SQuAD1''"
          RuntimeError _ no_kwargs "test_raw ''SQuAD1''" _ "test_raw ''SQuAD2''"] t1 r
    by (simp add: Let_def no_kwargs_def)
  ultimately show ?thesis by blast
qed

text \<open>The dictionary of line 72 is the map of the pairs, a later pair first.\<close>

lemma fold_upd_eq:
  "fold (\<lambda>(name, raw_dataset) m. m(name \<mapsto> raw_dataset)) kvs m = m ++ map_of (rev kvs)"
proof (induction kvs arbitrary: m)
  case Nil
  then show ?case by simp
next
  case (Cons kv kvs)
  obtain k v where kv: "kv = (k, v)" by (cases kv)
  have "fold (\<lambda>(name, raw_dataset) m. m(name \<mapsto> raw_dataset)) (kv # kvs) m
          = m(k \<mapsto> v) ++ map_of (rev kvs)"
    unfolding kv fold_simps case_prod_conv by (rule Cons.IH)
  also have "\<dots> = m ++ map_of (rev (kv # kvs))"
    unfolding kv by (rule ext) (simp add: map_add_def split: option.splits)
  finally show ?case .
qed

lemma raw_data_dict_eq: "raw_data_dict split raw_datasets = map_of (rev (zip split raw_datasets))"
  unfolding raw_data_dict_def fold_upd_eq by simp

lemma raw_data_dict_defined:
  assumes "length raw_datasets = length split" and "n \<in> set split"
  shows "raw_data_dict split raw_datasets n \<noteq> None"
proof -
  have "map fst (rev (zip split raw_datasets)) = rev split"
    using assms(1) by (simp add: rev_map [symmetric])
  then have "n \<in> fst ` set (rev (zip split raw_datasets))"
    using assms(2) by (metis set_map set_rev)
  then show ?thesis
    unfolding raw_data_dict_eq by (simp add: map_of_eq_None_iff)
qed

lemma map_of_rev_distinct: "distinct (map fst xs) \<Longrightarrow> map_of (rev xs) = map_of xs"
  by (induction xs) (auto simp add: map_add_def fun_eq_iff split: option.splits dest: map_of_SomeD
        intro: rev_image_eqI)

lemma raw_data_dict_nth:
  assumes "length raw_datasets = length split" and "distinct split" and "k < length split"
  shows "raw_data_dict split raw_datasets (split ! k) = Some (raw_datasets ! k)"
proof -
  have "distinct (map fst (zip split raw_datasets))"
    using assms(1,2) by simp
  then have "raw_data_dict split raw_datasets = map_of (zip split raw_datasets)"
    unfolding raw_data_dict_eq by (rule map_of_rev_distinct)
  then show ?thesis
    using assms by (simp add: map_of_zip_nth)
qed

lemma build_datasets_total:
  "\<forall>n \<in> set names. raw_data n \<noteq> None \<Longrightarrow>
   build_datasets raw_data v t names = Inr (map (\<lambda>n. init (the (raw_data n)) v t) names)"
  by (induction names) auto

lemma tok_ans_loop_eq:
  "tok_ans_loop text_transform items tok_ans = tok_ans @ concat (map text_transform items)"
  by (induction items arbitrary: tok_ans) simp_all

lemma apply_transform_eq:
  "apply_transform tok examples =
     map (\<lambda>(c, q, a, p). tok c @ tok q @ concat (map tok a)) examples"
  by (induction examples) (auto simp add: tok_ans_loop_eq)

lemma setup_datasets_total:
  assumes "set (split_names split') \<subseteq> {''train'', ''dev''}"
    and "vocab_arg \<noteq> None \<or> ''train'' \<in> set (split_names split')"
    and "raw_DATASETS env dataset_name = Some loader"
    and "loader root (split_names split') = Inr loaded"
    and "length loaded = length (split_names split')"
  shows "setup_datasets env dataset_name root vocab_arg tokenizer_arg split' =
     (let tok = (case tokenizer_arg of None \<Rightarrow> get_tokenizer env ''basic_english'' | Some t \<Rightarrow> t);
          raw_data = raw_data_dict (split_names split') loaded;
          v = (case vocab_arg of
                 Some v \<Rightarrow> v
               | None \<Rightarrow> build_vocab_from_iterator env
                           (apply_transform tok (the (raw_data ''train'')))
                           (length (the (raw_data ''train''))))
      in wrap_datasets (map (\<lambda>n. init (the (raw_data n)) v (setup_transforms tok v))
                          (split_names split')) split')"
proof -
  let ?names = "split_names split'"
  let ?rd = "raw_data_dict ?names loaded"
  have def: "\<forall>n \<in> set ?names. ?rd n \<noteq> None"
    using assms(5) by (simp add: raw_data_dict_defined)
  have chk: "check_default_set split' [''train'', ''dev''] dataset_name = Inr ?names"
    using assms(1) by (simp add: check_default_set_eq)
  show ?thesis
  proof (cases vocab_arg)
    case None
    then have "''train'' \<in> set ?names" using assms(2) by simp
    then obtain train where "?rd ''train'' = Some train" using def by auto
    then show ?thesis
      using None \<open>''train'' \<in> set ?names\<close> chk def assms(3,4)
      by (simp add: setup_datasets_def setup_vocab_def Let_def build_datasets_total
          sequential_transforms1_def [abs_def])
  next
    case (Some v)
    then show ?thesis
      using chk def assms(3,4)
      by (simp add: setup_datasets_def setup_vocab_def Let_def build_datasets_total
          sequential_transforms1_def [abs_def])
  qed
qed

lemma wrap_datasets_tuple: "wrap_datasets dss (SplitTuple ns) = Inr (Tuple dss)"
  by (simp add: wrap_datasets_def)

lemma wrap_datasets_str: "wrap_datasets [d] (SplitStr n) = Inr (One d)"
  by (simp add: wrap_datasets_def)

text \<open>
  Claim C6. When the requested names are valid, a vocabulary is supplied or \<open>train\<close> is
  requested, and the raw loader returns one raw dataset for each requested name: for a
  tuple of names the factory returns a tuple with one dataset for each name, in the
  order of the names, the \<open>k\<close>-th dataset holding the raw data of the \<open>k\<close>-th name (for
  distinct names, the \<open>k\<close>-th raw dataset of the loader); for a single name given as a
  string it returns that single dataset itself, not a tuple of one.
\<close>

theorem setup_datasets_shape:
  assumes "set (split_names split') \<subseteq> {''train'', ''dev''}"
    and "vocab_arg \<noteq> None \<or> ''train'' \<in> set (split_names split')"
    and "raw_DATASETS env dataset_name = Some loader"
    and "loader root (split_names split') = Inr loaded"
    and "length loaded = length (split_names split')"
  shows "case split' of
           SplitTuple ns \<Rightarrow>
             (\<exists>dss. setup_datasets env dataset_name root vocab_arg tokenizer_arg split' = Inr (Tuple dss) \<and>
                length dss = length ns \<and>
                (\<forall>k < length ns.
                   Some (data (dss ! k)) =
                     raw_data_dict ns loaded (ns ! k) \<and>
                   (distinct ns \<longrightarrow> data (dss ! k) = loaded ! k)))
         | SplitStr n \<Rightarrow>
             (\<exists>d. setup_datasets env dataset_name root vocab_arg tokenizer_arg split' = Inr (One d) \<and>
                data d = loaded ! 0)"
proof (cases split')
  case (SplitStr n)
  have "raw_data_dict [n] loaded ([n] ! 0)
          = Some (loaded ! 0)"
    using assms(5) SplitStr by (intro raw_data_dict_nth) simp_all
  then show ?thesis
    using setup_datasets_total [OF assms, of tokenizer_arg] SplitStr
    by (simp add: Let_def wrap_datasets_str init_def)
next
  case (SplitTuple ns)
  let ?rd = "raw_data_dict ns loaded"
  have some: "Some (the (?rd (ns ! k))) = ?rd (ns ! k)" if "k < length ns" for k
    using raw_data_dict_defined [of loaded ns "ns ! k"]
      assms(5) SplitTuple that by auto
  have nth: "the (?rd (ns ! k)) = loaded ! k"
    if "k < length ns" and "distinct ns" for k
    using raw_data_dict_nth [of loaded ns k]
      assms(5) SplitTuple that by simp
  show ?thesis
    using setup_datasets_total [OF assms, of tokenizer_arg] SplitTuple some nth
    by (simp add: Let_def wrap_datasets_tuple init_def)
qed

theorem setup_datasets_shape_witness:
  "set (split_names (SplitTuple [''train'', ''dev''])) \<subseteq> {''train'', ''dev''} \<and>
   ''train'' \<in> set (split_names (SplitTuple [''train'', ''dev''])) \<and>
   raw_DATASETS test_env ''SQuAD1'' = Some (test_raw ''SQuAD1'') \<and>
   (\<exists>dss. setup_datasets test_env ''SQuAD1'' ''.data'' None None (SplitTuple [''train'', ''dev''])
            = Inr (Tuple dss) \<and>
      length dss = 2 \<and>
      data (dss ! 0) = [(''A cat sat.'', ''What sat?'', [''cat'', ''sat.''], [2, 6]),
                        (''.data'', ''SQuAD1'', [''train''], [- 1])] \<and>
      data (dss ! 1) = [(''A cat sat.'', ''What sat?'', [''cat'', ''sat.''], [2, 6]),
                        (''.data'', ''SQuAD1'', [''dev''], [- 1])]) \<and>
   (\<exists>d. setup_datasets test_env ''SQuAD1'' ''.data'' None None (SplitStr ''train'') = Inr (One d) \<and>
      data d = [(''A cat sat.'', ''What sat?'', [''cat'', ''sat.''], [2, 6]),
                (''.data'', ''SQuAD1'', [''train''], [- 1])])"
proof -
  let ?ex = "(''A cat sat.'', ''What sat?'', [''cat'', ''sat.''], [2, 6 :: int])"
  let ?both = "[[?ex, (''.data'', ''SQuAD1'', [''train''], [- 1])],
                [?ex, (''.data'', ''SQuAD1'', [''dev''], [- 1])]]"
  let ?one = "[[?ex, (''.data'', ''SQuAD1'', [''train''], [- 1 :: int])]]"
  have h: "set (split_names (SplitTuple [''train'', ''dev''])) \<subseteq> {''train'', ''dev''}"
    "(None :: vocab option) \<noteq> None \<or> ''train'' \<in> set (split_names (SplitTuple [''train'', ''dev'']))"
    "raw_DATASETS test_env ''SQuAD1'' = Some (test_raw ''SQuAD1'')"
    "test_raw ''SQuAD1'' ''.data'' (split_names (SplitTuple [''train'', ''dev''])) = Inr ?both"
    "length ?both = length (split_names (SplitTuple [''train'', ''dev'']))"
    by (simp_all add: test_env_def test_raw_def)
  from setup_datasets_shape [OF h, of None] obtain dss where
    r: "setup_datasets test_env ''SQuAD1'' ''.data'' None None (SplitTuple [''train'', ''dev''])
          = Inr (Tuple dss)"
    and l: "length dss = 2"
    and a: "\<forall>k<2. distinct [''train'', ''dev''] \<longrightarrow> data (dss ! k) = ?both ! k"
    by auto
  from a have d0: "data (dss ! 0) = ?both ! 0"
    by simp
  from a have d1: "data (dss ! 1) = ?both ! 1"
    by simp
  have g: "set (split_names (SplitStr ''train'')) \<subseteq> {''train'', ''dev''}"
    "(None :: vocab option) \<noteq> None \<or> ''train'' \<in> set (split_names (SplitStr ''train''))"
    "raw_DATASETS test_env ''SQuAD1'' = Some (test_raw ''SQuAD1'')"
    "test_raw ''SQuAD1'' ''.data'' (split_names (SplitStr ''train'')) = Inr ?one"
    "length ?one = length (split_names (SplitStr ''train''))"
    by (simp_all add: test_env_def test_raw_def)
  from setup_datasets_shape [OF g, of None] obtain d where
    s: "setup_datasets test_env ''SQuAD1'' ''.data'' None None (SplitStr ''train'') = Inr (One d)"
    and ds: "data d = ?one ! 0"
    by auto
  show ?thesis
    using h(1,3) r l d0 d1 s ds by simp
qed

text \<open>
  Claim C7. When no vocabulary is supplied, the requested names are valid and contain
  \<open>train\<close>, and the raw loader returns one raw dataset for each name, the vocabulary of
  every dataset returned is the result of the vocabulary builder on the token stream
  that has, for each train example in order, the tokens of the context, then the tokens
  of the question, then the concatenation of the tokens of each answer, together with
  the number of train examples.
\<close>

theorem vocab_token_stream:
  assumes "set (split_names split') \<subseteq> {''train'', ''dev''}"
    and "''train'' \<in> set (split_names split')"
    and "raw_DATASETS env dataset_name = Some loader"
    and "loader root (split_names split') = Inr loaded"
    and "length loaded = length (split_names split')"
  shows "\<exists>train w.
           raw_data_dict (split_names split') loaded ''train'' = Some train \<and>
           setup_datasets env dataset_name root None tokenizer_arg split' = Inr w \<and>
           length (datasets_of (Inr w)) = length (split_names split') \<and>
           (\<forall>d \<in> set (datasets_of (Inr w)).
              vocab d =
                (let tok = (case tokenizer_arg of
                              None \<Rightarrow> get_tokenizer env ''basic_english''
                            | Some t \<Rightarrow> t)
                 in build_vocab_from_iterator env
                      (map (\<lambda>(c, q, a, p). tok c @ tok q @ concat (map tok a)) train)
                      (length train)))"
proof -
  let ?names = "split_names split'"
  let ?rd = "raw_data_dict ?names loaded"
  obtain train where train: "?rd ''train'' = Some train"
    using raw_data_dict_defined [OF assms(5) assms(2)] by auto
  have or: "(None :: vocab option) \<noteq> None \<or> ''train'' \<in> set ?names"
    using assms(2) by simp
  show ?thesis
  proof (cases split')
    case (SplitStr n)
    then show ?thesis
      using setup_datasets_total [OF assms(1) or assms(3-5), of tokenizer_arg] train
      by (simp add: Let_def wrap_datasets_str init_def apply_transform_eq)
  next
    case (SplitTuple ns)
    then show ?thesis
      using setup_datasets_total [OF assms(1) or assms(3-5), of tokenizer_arg] train
      by (simp add: Let_def wrap_datasets_tuple init_def apply_transform_eq)
  qed
qed

theorem vocab_token_stream_witness:
  "set (split_names (SplitTuple [''train'', ''dev''])) \<subseteq> {''train'', ''dev''} \<and>
   ''train'' \<in> set (split_names (SplitTuple [''train'', ''dev''])) \<and>
   raw_DATASETS test_env ''SQuAD1'' = Some (test_raw ''SQuAD1'') \<and>
   (\<exists>w. setup_datasets test_env ''SQuAD1'' ''.data'' None (Some str_split)
           (SplitTuple [''train'', ''dev'']) = Inr w \<and>
      length (datasets_of (Inr w)) = 2 \<and>
      vocab (datasets_of (Inr w) ! 0) =
        build_vocab_from_iterator test_env
          [[''A'', ''cat'', ''sat.'', ''What'', ''sat?'', ''cat'', ''sat.''],
           [''.data'', ''SQuAD1'', ''train'']] 2 \<and>
      vocab (datasets_of (Inr w) ! 1) = vocab (datasets_of (Inr w) ! 0))"
proof -
  let ?ex = "(''A cat sat.'', ''What sat?'', [''cat'', ''sat.''], [2, 6 :: int])"
  let ?both = "[[?ex, (''.data'', ''SQuAD1'', [''train''], [- 1])],
                [?ex, (''.data'', ''SQuAD1'', [''dev''], [- 1])]]"
  have h: "set (split_names (SplitTuple [''train'', ''dev''])) \<subseteq> {''train'', ''dev''}"
    "''train'' \<in> set (split_names (SplitTuple [''train'', ''dev'']))"
    "raw_DATASETS test_env ''SQuAD1'' = Some (test_raw ''SQuAD1'')"
    "test_raw ''SQuAD1'' ''.data'' (split_names (SplitTuple [''train'', ''dev''])) = Inr ?both"
    "length ?both = length (split_names (SplitTuple [''train'', ''dev'']))"
    by (simp_all add: test_env_def test_raw_def)
  from vocab_token_stream [OF h, of "Some str_split"] obtain train w where
    t: "raw_data_dict [''train'', ''dev''] ?both ''train'' = Some train"
    and r: "setup_datasets test_env ''SQuAD1'' ''.data'' None (Some str_split)
              (SplitTuple [''train'', ''dev'']) = Inr w"
    and l: "length (datasets_of (Inr w)) = 2"
    and a: "\<forall>d \<in> set (datasets_of (Inr w)). vocab d =
              build_vocab_from_iterator test_env
                (map (\<lambda>(c, q, a, p). str_split c @ str_split q @ concat (map str_split a)) train)
                (length train)"
    by (auto simp add: Let_def)
  from t have train: "train = [?ex, (''.data'', ''SQuAD1'', [''train''], [- 1])]"
    by (simp add: raw_data_dict_def)
  have "datasets_of (Inr w) ! 0 \<in> set (datasets_of (Inr w))"
    and "datasets_of (Inr w) ! 1 \<in> set (datasets_of (Inr w))"
    using l by simp_all
  with a have "vocab (datasets_of (Inr w) ! 0) =
        build_vocab_from_iterator test_env
          [[''A'', ''cat'', ''sat.'', ''What'', ''sat?'', ''cat'', ''sat.''],
           [''.data'', ''SQuAD1'', ''train'']] 2"
    and "vocab (datasets_of (Inr w) ! 1) = vocab (datasets_of (Inr w) ! 0)"
    unfolding train by (simp_all add: str_split_def is_space_def numeral_2_eq_2)
  then show ?thesis
    using h(1-3) r l by simp
qed

text \<open>
  Claim C8. When the factory returns, all its datasets have the same vocabulary and the
  same transforms: the fields \<open>context\<close>, \<open>question\<close> and \<open>answers\<close> are one function, the
  tokenizer, then the vocabulary lookup of each token, then the conversion to a
  \<open>Long\<close> tensor, and the field \<open>ans_pos\<close> is the conversion to a \<open>Long\<close> tensor alone,
  which keeps the numbers of the pair as they are.
\<close>

theorem shared_transforms:
  assumes "set (split_names split') \<subseteq> {''train'', ''dev''}"
    and "vocab_arg \<noteq> None \<or> ''train'' \<in> set (split_names split')"
    and "raw_DATASETS env dataset_name = Some loader"
    and "loader root (split_names split') = Inr loaded"
    and "length loaded = length (split_names split')"
  shows "\<exists>v w.
           setup_datasets env dataset_name root vocab_arg tokenizer_arg split' = Inr w \<and>
           length (datasets_of (Inr w)) = length (split_names split') \<and>
           (\<forall>v'. vocab_arg = Some v' \<longrightarrow> v = v') \<and>
           (\<forall>d \<in> set (datasets_of (Inr w)).
              vocab d = v \<and>
              (let tok = (case tokenizer_arg of
                            None \<Rightarrow> get_tokenizer env ''basic_english''
                          | Some t \<Rightarrow> t);
                   text_transform = (\<lambda>txt. totensor Long (vocab_func v (tok txt)))
               in transforms d =
                    \<lparr>context_tr = text_transform, question = text_transform,
                     answers = text_transform, ans_pos = totensor Long\<rparr>) \<and>
              ans_pos (transforms d) [s, e] = Tensor Long [s, e])"
proof (cases split')
  case (SplitStr n)
  then show ?thesis
    using setup_datasets_total [OF assms, of tokenizer_arg]
    by (cases vocab_arg)
      (simp_all add: Let_def wrap_datasets_str init_def setup_transforms_def
        sequential_transforms3_def [abs_def] totensor_def)
next
  case (SplitTuple ns)
  then show ?thesis
    using setup_datasets_total [OF assms, of tokenizer_arg]
    by (cases vocab_arg)
      (simp_all add: Let_def wrap_datasets_tuple init_def setup_transforms_def
        sequential_transforms3_def [abs_def] totensor_def)
qed

theorem shared_transforms_witness:
  "set (split_names (SplitStr ''dev'')) \<subseteq> {''train'', ''dev''} \<and>
   raw_DATASETS test_env ''SQuAD2'' = Some (test_raw ''SQuAD2'') \<and>
   (\<exists>w. setup_datasets test_env ''SQuAD2'' ''.data'' (Some test_vocab) None (SplitStr ''dev'')
           = Inr w \<and>
      length (datasets_of (Inr w)) = 1 \<and> vocab (datasets_of (Inr w) ! 0) = test_vocab \<and>
      transforms (datasets_of (Inr w) ! 0) =
        \<lparr>context_tr = (\<lambda>txt. totensor Long (vocab_func test_vocab (str_split txt))),
         question = (\<lambda>txt. totensor Long (vocab_func test_vocab (str_split txt))),
         answers = (\<lambda>txt. totensor Long (vocab_func test_vocab (str_split txt))),
         ans_pos = totensor Long\<rparr> \<and>
      ans_pos (transforms (datasets_of (Inr w) ! 0)) [1, 1] = Tensor Long [1, 1])"
proof -
  let ?one = "[[(''A cat sat.'', ''What sat?'', [''cat'', ''sat.''], [2, 6 :: int]),
                (''.data'', ''SQuAD2'', [''dev''], [- 1])]]"
  have h: "set (split_names (SplitStr ''dev'')) \<subseteq> {''train'', ''dev''}"
    "Some test_vocab \<noteq> None \<or> ''train'' \<in> set (split_names (SplitStr ''dev''))"
    "raw_DATASETS test_env ''SQuAD2'' = Some (test_raw ''SQuAD2'')"
    "test_raw ''SQuAD2'' ''.data'' (split_names (SplitStr ''dev'')) = Inr ?one"
    "length ?one = length (split_names (SplitStr ''dev''))"
    by (simp_all add: test_env_def test_raw_def)
  from shared_transforms [OF h, of None 1 1] obtain v w where
    r: "setup_datasets test_env ''SQuAD2'' ''.data'' (Some test_vocab) None (SplitStr ''dev'') = Inr w"
    and l: "length (datasets_of (Inr w)) = 1"
    and v: "v = test_vocab"
    and a: "\<forall>d \<in> set (datasets_of (Inr w)). vocab d = v \<and>
              transforms d =
                \<lparr>context_tr =
                   (\<lambda>txt. totensor Long (vocab_func v (get_tokenizer test_env ''basic_english'' txt))),
                 question =
                   (\<lambda>txt. totensor Long (vocab_func v (get_tokenizer test_env ''basic_english'' txt))),
                 answers =
                   (\<lambda>txt. totensor Long (vocab_func v (get_tokenizer test_env ''basic_english'' txt))),
                 ans_pos = totensor Long\<rparr> \<and>
              ans_pos (transforms d) [1, 1] = Tensor Long [1, 1]"
    by (auto simp add: Let_def)
  have "datasets_of (Inr w) ! 0 \<in> set (datasets_of (Inr w))" using l by simp
  with a v have "vocab (datasets_of (Inr w) ! 0) = test_vocab \<and>
      transforms (datasets_of (Inr w) ! 0) =
        \<lparr>context_tr = (\<lambda>txt. totensor Long (vocab_func test_vocab (str_split txt))),
         question = (\<lambda>txt. totensor Long (vocab_func test_vocab (str_split txt))),
         answers = (\<lambda>txt. totensor Long (vocab_func test_vocab (str_split txt))),
         ans_pos = totensor Long\<rparr> \<and>
      ans_pos (transforms (datasets_of (Inr w) ! 0)) [1, 1] = Tensor Long [1, 1]"
    by (auto simp add: test_env_def)
  then show ?thesis
    using h(1,3) r l by (simp add: totensor_def)
qed

text \<open>
  Claim C9 as stated: the default of \<open>root\<close> is \<open>.\<close>. A call of \<open>SQuAD1\<close> without
  arguments is not the call with \<open>root\<close> set to \<open>.\<close>: the raw loader of the test records
  the root it is given, and the two calls return datasets with different data.
\<close>

theorem default_root_counterexample:
  "map data (datasets_of (SQuAD1 test_env no_kwargs)) \<noteq>
   map data (datasets_of (SQuAD1 test_env
     \<lparr>root_kw = Some ''.'', vocab_kw = None, tokenizer_kw = None, split_kw = None\<rparr>))"
  by (simp add: SQuAD1_def no_kwargs_def setup_datasets_def check_default_set_def Let_def
      test_env_def test_raw_def raw_data_dict_def setup_vocab_def
      wrap_datasets_def init_def)

text \<open>
  Claim C9, amended. \<open>SQuAD1\<close> and \<open>SQuAD2\<close> have the parameter defaults
  \<open>root = .data\<close>, \<open>vocab = None\<close>, \<open>tokenizer = None\<close> and \<open>split = (train, dev)\<close>; an
  argument that is passed replaces its default.
\<close>

theorem factory_defaults:
  "SQuAD1 env no_kwargs =
     setup_datasets env ''SQuAD1'' ''.data'' None None (SplitTuple [''train'', ''dev'']) \<and>
   SQuAD2 env no_kwargs =
     setup_datasets env ''SQuAD2'' ''.data'' None None (SplitTuple [''train'', ''dev'']) \<and>
   SQuAD1 env \<lparr>root_kw = Some r, vocab_kw = Some v, tokenizer_kw = Some t, split_kw = Some s\<rparr> =
     setup_datasets env ''SQuAD1'' r v t s \<and>
   SQuAD2 env \<lparr>root_kw = Some r, vocab_kw = Some v, tokenizer_kw = Some t, split_kw = Some s\<rparr> =
     setup_datasets env ''SQuAD2'' r v t s"
  by (simp add: SQuAD1_def SQuAD2_def no_kwargs_def)

theorem factory_defaults_witness:
  "SQuAD1 test_env no_kwargs =
     setup_datasets test_env ''SQuAD1'' ''.data'' None None (SplitTuple [''train'', ''dev'']) \<and>
   SQuAD2 test_env \<lparr>root_kw = Some ''.'', vocab_kw = Some (Some test_vocab),
                    tokenizer_kw = Some (Some str_split), split_kw = Some (SplitStr ''dev'')\<rparr> =
     setup_datasets test_env ''SQuAD2'' ''.'' (Some test_vocab) (Some str_split) (SplitStr ''dev'')"
  using factory_defaults [of test_env "''.''" "Some test_vocab" "Some str_split" "SplitStr ''dev''"]
  by simp

end
